theory Spec2Isabelle
  imports Main "HOL-Library.Word"
begin

unbundle bit_operations_syntax

section \<open>The OpenTelemetry side: what the exporter reads\<close>

text \<open>
  The exporter in \<^verbatim>\<open>go/genkit/trace_store_exporter.go\<close> reads finished spans through the
  OpenTelemetry SDK. The records below carry the names of the Go packages they come from
  (\<^verbatim>\<open>trace\<close>, \<^verbatim>\<open>sdktrace\<close>, \<^verbatim>\<open>attribute\<close>, \<^verbatim>\<open>instrumentation\<close>); a field stands
  for the accessor method of the same name. A \<^verbatim>\<open>[16]byte\<close> trace id is a 128-bit word and
  a \<^verbatim>\<open>[8]byte\<close> span id a 64-bit word, byte 0 being the most significant one.
  The type \<open>'v\<close> is \<^verbatim>\<open>attribute.Value\<close> and \<open>'t\<close> is \<^verbatim>\<open>time.Time\<close>.
\<close>

type_synonym byte = "8 word"
type_synonym TraceID = "128 word"
type_synonym SpanID = "64 word"

record 'v attribute_KeyValue =
  Key :: string
  Value :: 'v

record trace_SpanContext =
  traceID :: TraceID
  spanID :: SpanID
  traceFlags :: byte
  remote :: bool

record 'v sdktrace_Link =
  SpanContext :: trace_SpanContext
  Attributes :: "'v attribute_KeyValue list"
  DroppedAttributeCount :: int

record ('v, 't) sdktrace_Event =
  Name :: string
  Attributes :: "'v attribute_KeyValue list"
  DroppedAttributeCount :: int
  Time :: 't

record sdktrace_Status =
  Code :: "32 word"
  Description :: string

record instrumentation_Scope =
  Name :: string
  Version :: string
  SchemaURL :: string

record ('v, 't) ReadOnlySpan =
  Name :: string
  SpanContext :: trace_SpanContext
  Parent :: trace_SpanContext
  SpanKind :: int
  StartTime :: 't
  EndTime :: 't
  Attributes :: "'v attribute_KeyValue list"
  Links :: "'v sdktrace_Link list"
  Events :: "('v, 't) sdktrace_Event list"
  Status :: sdktrace_Status
  InstrumentationLibrary :: instrumentation_Scope

text \<open>\<^verbatim>\<open>hex.EncodeToString\<close>: two lower-case digits per byte, high nibble first.\<close>

definition hextable :: string where
  "hextable = ''0123456789abcdef''"

definition hex_EncodeToString :: "byte list \<Rightarrow> string" where
  "hex_EncodeToString src =
     concat (map (\<lambda>v. [hextable ! unat (drop_bit 4 v), hextable ! unat (v AND 0x0f)]) src)"

definition SpanID_bytes :: "SpanID \<Rightarrow> byte list" where
  "SpanID_bytes s = map (\<lambda>i. ucast (drop_bit (8 * i) s)) (rev [0..<8])"

definition TraceID_bytes :: "TraceID \<Rightarrow> byte list" where
  "TraceID_bytes t = map (\<lambda>i. ucast (drop_bit (8 * i) t)) (rev [0..<16])"

text \<open>\<^verbatim>\<open>SpanID.String\<close>, \<^verbatim>\<open>TraceID.String\<close>: the hex encoding of the bytes.\<close>

definition SpanID_String :: "SpanID \<Rightarrow> string" where
  "SpanID_String s = hex_EncodeToString (SpanID_bytes s)"

definition TraceID_String :: "TraceID \<Rightarrow> string" where
  "TraceID_String t = hex_EncodeToString (TraceID_bytes t)"

text \<open>\<^verbatim>\<open>SpanID.IsValid\<close>: the id differs from the all-zero id.\<close>

definition nilSpanID :: SpanID where
  "nilSpanID = 0"

definition SpanID_IsValid :: "SpanID \<Rightarrow> bool" where
  "SpanID_IsValid s = (s \<noteq> nilSpanID)"

definition HasSpanID :: "trace_SpanContext \<Rightarrow> bool" where
  "HasSpanID sc = SpanID_IsValid (spanID sc)"

definition SpanContext_IsRemote :: "trace_SpanContext \<Rightarrow> bool" where
  "SpanContext_IsRemote sc = remote sc"

text \<open>\<^verbatim>\<open>SpanKind.String\<close>: the five named kinds, anything else is unspecified.\<close>

definition SpanKind_String :: "int \<Rightarrow> string" where
  "SpanKind_String sk =
     (if sk = 1 then ''internal''
      else if sk = 2 then ''server''
      else if sk = 3 then ''client''
      else if sk = 4 then ''producer''
      else if sk = 5 then ''consumer''
      else ''unspecified'')"

section \<open>The genkit side: what the exporter writes\<close>

text \<open>
  Modelled from the spec: the struct declarations of package \<^verbatim>\<open>genkit\<close>
  (\<^verbatim>\<open>TraceData\<close>, \<^verbatim>\<open>SpanData\<close>, \<^verbatim>\<open>Link\<close>, \<^verbatim>\<open>SpanContext\<close>, \<^verbatim>\<open>TimeEvent\<close>,
  \<^verbatim>\<open>annotation\<close>, \<^verbatim>\<open>boolValue\<close>, \<^verbatim>\<open>Status\<close>, \<^verbatim>\<open>InstrumentationLibrary\<close>) and the type
  \<^verbatim>\<open>Microseconds\<close> are declared outside the exporter's file. The records have the
  fields the exporter assigns, which are the persisted field names the spec lists.
  \<open>'a\<close> is Go's \<^verbatim>\<open>any\<close> (an attribute value after \<^verbatim>\<open>AsInterface\<close>) and \<open>'m\<close> is
  \<^verbatim>\<open>Microseconds\<close>, a numeric type whose zero value is \<open>0\<close>.
\<close>

record SpanContext =
  TraceID :: string
  SpanID :: string
  IsRemote :: bool
  TraceFlags :: int

record 'a Link =
  SpanContext :: SpanContext
  Attributes :: "string \<rightharpoonup> 'a"
  DroppedAttributesCount :: int

record 'a annotation =
  Description :: string
  Attributes :: "string \<rightharpoonup> 'a"

record ('a, 'm) TimeEvent =
  Time :: 'm
  Annotation :: "'a annotation"

record ('a, 'm) timeEvents =
  TimeEvent :: "('a, 'm) TimeEvent list"

record boolValue =
  Value :: bool

record Status =
  Code :: "32 word"
  Description :: string

record InstrumentationLibrary =
  Name :: string
  Version :: string
  SchemaURL :: string

record ('a, 'm) SpanData =
  SpanID :: string
  TraceID :: string
  ParentSpanID :: string
  StartTime :: 'm
  EndTime :: 'm
  Attributes :: "string \<rightharpoonup> 'a"
  DisplayName :: string
  Links :: "'a Link list"
  InstrumentationLibrary :: InstrumentationLibrary
  SpanKind :: string
  SameProcessAsParentSpan :: boolValue
  Status :: Status
  TimeEvents :: "('a, 'm) timeEvents"

record ('a, 'm) TraceData =
  DisplayName :: string
  StartTime :: 'm
  EndTime :: 'm
  Spans :: "string \<rightharpoonup> ('a, 'm) SpanData"

text \<open>
  A Go \<^verbatim>\<open>error\<close> is a value with a message. \<^verbatim>\<open>ExportSpans\<close> returns the one that
  \<^verbatim>\<open>convertTrace\<close> creates with \<^verbatim>\<open>errors.New\<close>, or the context's, or the store's,
  the last two as it gets them.
\<close>

datatype error = errors_New string

definition MultipleRootSpans :: error where
  "MultipleRootSpans = errors_New ''more than one parentless span''"

section \<open>Conversion of one span\<close>

text \<open>
  \<^verbatim>\<open>attributesToMap\<close>: a fresh map, then one assignment per pair, in order.
  \<open>AsInterface\<close> is \<^verbatim>\<open>attribute.Value.AsInterface\<close>, taken as a parameter.
\<close>

definition attributesToMap ::
  "('v \<Rightarrow> 'a) \<Rightarrow> 'v attribute_KeyValue list \<Rightarrow> (string \<rightharpoonup> 'a)" where
  "attributesToMap AsInterface attrs =
     foldl (\<lambda>m a. m(Key a \<mapsto> AsInterface (attribute_KeyValue.Value a))) Map.empty attrs"

definition convertSpanContext :: "trace_SpanContext \<Rightarrow> SpanContext" where
  "convertSpanContext sc =
     \<lparr> SpanContext.TraceID = TraceID_String (traceID sc),
       SpanContext.SpanID = SpanID_String (spanID sc),
       SpanContext.IsRemote = SpanContext_IsRemote sc,
       SpanContext.TraceFlags = uint (traceFlags sc) \<rparr>"

definition convertLinks :: "('v \<Rightarrow> 'a) \<Rightarrow> 'v sdktrace_Link list \<Rightarrow> 'a Link list" where
  "convertLinks AsInterface links =
     map (\<lambda>l. \<lparr> Link.SpanContext = convertSpanContext (sdktrace_Link.SpanContext l),
                Link.Attributes = attributesToMap AsInterface (sdktrace_Link.Attributes l),
                Link.DroppedAttributesCount = sdktrace_Link.DroppedAttributeCount l \<rparr>) links"

definition convertEvents ::
  "('t \<Rightarrow> 'm) \<Rightarrow> ('v \<Rightarrow> 'a) \<Rightarrow> ('v, 't) sdktrace_Event list \<Rightarrow> ('a, 'm) TimeEvent list" where
  "convertEvents timeToMicroseconds AsInterface evs =
     map (\<lambda>e. \<lparr> TimeEvent.Time = timeToMicroseconds (sdktrace_Event.Time e),
                TimeEvent.Annotation =
                  \<lparr> annotation.Description = sdktrace_Event.Name e,
                    annotation.Attributes =
                      attributesToMap AsInterface (sdktrace_Event.Attributes e) \<rparr> \<rparr>) evs"

definition convertStatus :: "sdktrace_Status \<Rightarrow> Status" where
  "convertStatus s =
     \<lparr> Status.Code = sdktrace_Status.Code s,
       Status.Description = sdktrace_Status.Description s \<rparr>"

definition convertInstrumentationLibrary :: "instrumentation_Scope \<Rightarrow> InstrumentationLibrary" where
  "convertInstrumentationLibrary il =
     \<lparr> InstrumentationLibrary.Name = instrumentation_Scope.Name il,
       InstrumentationLibrary.Version = instrumentation_Scope.Version il,
       InstrumentationLibrary.SchemaURL = instrumentation_Scope.SchemaURL il \<rparr>"

text \<open>
  \<^verbatim>\<open>convertSpan\<close>: the struct literal (which leaves \<^verbatim>\<open>ParentSpanID\<close> empty), then the
  parent id if the parent context has one, then the events.
  The function \<^verbatim>\<open>timeToMicroseconds\<close> is declared outside the exporter's file and is
  taken as a parameter, as is \<^verbatim>\<open>AsInterface\<close>.
\<close>

definition convertSpan ::
  "('t \<Rightarrow> 'm) \<Rightarrow> ('v \<Rightarrow> 'a) \<Rightarrow> ('v, 't) ReadOnlySpan \<Rightarrow> ('a, 'm) SpanData" where
  "convertSpan timeToMicroseconds AsInterface span =
     (let sc = ReadOnlySpan.SpanContext span;
          sd = \<lparr> SpanData.SpanID = SpanID_String (spanID sc),
                 SpanData.TraceID = TraceID_String (traceID sc),
                 SpanData.ParentSpanID = '''',
                 SpanData.StartTime = timeToMicroseconds (ReadOnlySpan.StartTime span),
                 SpanData.EndTime = timeToMicroseconds (ReadOnlySpan.EndTime span),
                 SpanData.Attributes = attributesToMap AsInterface (ReadOnlySpan.Attributes span),
                 SpanData.DisplayName = ReadOnlySpan.Name span,
                 SpanData.Links = convertLinks AsInterface (ReadOnlySpan.Links span),
                 SpanData.InstrumentationLibrary =
                   convertInstrumentationLibrary (ReadOnlySpan.InstrumentationLibrary span),
                 SpanData.SpanKind = SpanKind_String (ReadOnlySpan.SpanKind span),
                 SpanData.SameProcessAsParentSpan =
                   \<lparr> boolValue.Value = (\<not> SpanContext_IsRemote sc) \<rparr>,
                 SpanData.Status = convertStatus (ReadOnlySpan.Status span),
                 SpanData.TimeEvents = \<lparr> timeEvents.TimeEvent = [] \<rparr> \<rparr>;
          p = ReadOnlySpan.Parent span;
          sd = (if HasSpanID p then sd\<lparr> SpanData.ParentSpanID := SpanID_String (spanID p) \<rparr>
                else sd)
      in sd\<lparr> SpanData.TimeEvents :=
               \<lparr> timeEvents.TimeEvent =
                   convertEvents timeToMicroseconds AsInterface (ReadOnlySpan.Events span) \<rparr> \<rparr>)"

section \<open>Assembly of one trace\<close>

text \<open>
  \<^verbatim>\<open>convertTrace\<close>: the document starts with zero header fields and an empty map; the
  loop body converts a span, treats an empty \<^verbatim>\<open>ParentSpanID\<close> as the sign of a root, tests
  \<^verbatim>\<open>td.DisplayName != ""\<close> to find out whether a root was seen before, and stores the
  converted span under its id. The error return drops the document.
\<close>

fun convertTrace_loop ::
  "('t \<Rightarrow> 'm) \<Rightarrow> ('v \<Rightarrow> 'a) \<Rightarrow> ('a, 'm) TraceData \<Rightarrow> ('v, 't) ReadOnlySpan list
     \<Rightarrow> error + ('a, 'm) TraceData" where
  "convertTrace_loop timeToMicroseconds AsInterface td [] = Inr td"
| "convertTrace_loop timeToMicroseconds AsInterface td (span # spans) =
     (let cspan = convertSpan timeToMicroseconds AsInterface span in
      if SpanData.ParentSpanID cspan = '''' then
        if TraceData.DisplayName td \<noteq> '''' then Inl MultipleRootSpans
        else convertTrace_loop timeToMicroseconds AsInterface
               (td\<lparr> TraceData.DisplayName := SpanData.DisplayName cspan,
                    TraceData.StartTime := SpanData.StartTime cspan,
                    TraceData.EndTime := SpanData.EndTime cspan,
                    Spans := (Spans td)(SpanData.SpanID cspan \<mapsto> cspan) \<rparr>) spans
      else convertTrace_loop timeToMicroseconds AsInterface
             (td\<lparr> Spans := (Spans td)(SpanData.SpanID cspan \<mapsto> cspan) \<rparr>) spans)"

text \<open>\<^verbatim>\<open>&TraceData{Spans: map[string]*SpanData{}}\<close>: zero header fields, empty map.\<close>

definition newTraceData :: "('a, 'm::zero) TraceData" where
  "newTraceData =
     \<lparr> TraceData.DisplayName = '''', TraceData.StartTime = 0, TraceData.EndTime = 0,
       Spans = Map.empty \<rparr>"

definition convertTrace ::
  "('t \<Rightarrow> 'm::zero) \<Rightarrow> ('v \<Rightarrow> 'a) \<Rightarrow> ('v, 't) ReadOnlySpan list \<Rightarrow> error + ('a, 'm) TraceData" where
  "convertTrace timeToMicroseconds AsInterface spans =
     convertTrace_loop timeToMicroseconds AsInterface newTraceData spans"

section \<open>Export of a batch\<close>

text \<open>
  The first loop of \<^verbatim>\<open>ExportSpans\<close>: every span is appended to the slice stored under
  its trace id (a missing key reads as the empty slice).
\<close>

definition groupByTrace ::
  "('v, 't) ReadOnlySpan list \<Rightarrow> (TraceID \<rightharpoonup> ('v, 't) ReadOnlySpan list)" where
  "groupByTrace spans =
     foldl (\<lambda>spansByTrace span.
              let tid = traceID (ReadOnlySpan.SpanContext span)
              in spansByTrace(tid \<mapsto> (case spansByTrace tid of None \<Rightarrow> [] | Some ss \<Rightarrow> ss) @ [span]))
           Map.empty spans"

text \<open>
  Go ranges over a map in an order of its own choosing. The order is the list \<open>order\<close>
  of keys; the entries visited are those of the keys it names.
\<close>

definition rangeMap :: "'k list \<Rightarrow> ('k \<rightharpoonup> 'x) \<Rightarrow> ('k \<times> 'x) list" where
  "rangeMap order m = List.map_filter (\<lambda>k. map_option (Pair k) (m k)) order"

text \<open>
  The second loop. The context is the sequence \<open>ctx\<close> of what \<^verbatim>\<open>ctx.Err()\<close> answers at
  the successive tests of \<^verbatim>\<open>ctx.Err() != nil\<close> (a context keeps answering the same error
  once it has one, so the error returned is the one tested). The store is a state \<open>'s\<close>
  with the function \<open>save\<close> for \<^verbatim>\<open>e.store.Save\<close>. The result is the error returned
  (\<open>None\<close> for \<^verbatim>\<open>nil\<close>), the store as the call leaves it, and the number of tests of
  the context made so far.
\<close>

fun exportLoop ::
  "(nat \<Rightarrow> error option) \<Rightarrow> ('s \<Rightarrow> string \<Rightarrow> ('a, 'm) TraceData \<Rightarrow> error option \<times> 's)
     \<Rightarrow> ('t \<Rightarrow> 'm::zero) \<Rightarrow> ('v \<Rightarrow> 'a) \<Rightarrow> nat \<Rightarrow> 's
     \<Rightarrow> (TraceID \<times> ('v, 't) ReadOnlySpan list) list \<Rightarrow> error option \<times> 's \<times> nat" where
  "exportLoop ctx save timeToMicroseconds AsInterface n st [] = (None, st, n)"
| "exportLoop ctx save timeToMicroseconds AsInterface n st ((tid, spans) # rest) =
     (case ctx n of
        Some err \<Rightarrow> (Some err, st, Suc n)
      | None \<Rightarrow>
          (case convertTrace timeToMicroseconds AsInterface spans of
             Inl err \<Rightarrow> (Some err, st, Suc n)
           | Inr td \<Rightarrow>
               (case save st (TraceID_String tid) td of
                  (Some err, st') \<Rightarrow> (Some err, st', Suc n)
                | (None, st') \<Rightarrow>
                    exportLoop ctx save timeToMicroseconds AsInterface (Suc n) st' rest)))"

definition ExportSpans ::
  "(nat \<Rightarrow> error option) \<Rightarrow> ('s \<Rightarrow> string \<Rightarrow> ('a, 'm) TraceData \<Rightarrow> error option \<times> 's)
     \<Rightarrow> ('t \<Rightarrow> 'm::zero) \<Rightarrow> ('v \<Rightarrow> 'a) \<Rightarrow> TraceID list \<Rightarrow> 's
     \<Rightarrow> ('v, 't) ReadOnlySpan list \<Rightarrow> error option \<times> 's \<times> nat" where
  "ExportSpans ctx save timeToMicroseconds AsInterface order st spans =
     exportLoop ctx save timeToMicroseconds AsInterface 0 st
       (rangeMap order (groupByTrace spans))"

section \<open>Auxiliary definitions and sample data\<close>

text \<open>The key/value pairs the loop of \<^verbatim>\<open>convertTrace\<close> assigns to the map, in order.\<close>

definition spanEntries ::
  "('t \<Rightarrow> 'm) \<Rightarrow> ('v \<Rightarrow> 'a) \<Rightarrow> ('v, 't) ReadOnlySpan list \<Rightarrow> (string \<times> ('a, 'm) SpanData) list" where
  "spanEntries t a spans =
     map (\<lambda>s. (SpanData.SpanID (convertSpan t a s), convertSpan t a s)) spans"

text \<open>
  A span of trace \<open>tid\<close> with id \<open>sid\<close>, parent id \<open>parent\<close> (\<open>0\<close> for none), a name
  and two times; everything else is empty. Attribute values and times are integers.
\<close>

definition sampleSpan ::
  "TraceID \<Rightarrow> SpanID \<Rightarrow> SpanID \<Rightarrow> string \<Rightarrow> int \<Rightarrow> int \<Rightarrow> (int, int) ReadOnlySpan" where
  "sampleSpan tid sid parent name start finish =
     \<lparr> ReadOnlySpan.Name = name,
       ReadOnlySpan.SpanContext =
         \<lparr> traceID = tid, spanID = sid, traceFlags = 1, remote = False \<rparr>,
       ReadOnlySpan.Parent =
         \<lparr> traceID = tid, spanID = parent, traceFlags = 1, remote = True \<rparr>,
       ReadOnlySpan.SpanKind = 1,
       ReadOnlySpan.StartTime = start,
       ReadOnlySpan.EndTime = finish,
       ReadOnlySpan.Attributes = [],
       ReadOnlySpan.Links = [],
       ReadOnlySpan.Events = [],
       ReadOnlySpan.Status =
         \<lparr> sdktrace_Status.Code = 0, sdktrace_Status.Description = '''' \<rparr>,
       ReadOnlySpan.InstrumentationLibrary =
         \<lparr> instrumentation_Scope.Name = ''genkit'', instrumentation_Scope.Version = '''',
           instrumentation_Scope.SchemaURL = '''' \<rparr> \<rparr>"

text \<open>
  The store after the documents of the groups \<open>gs\<close> have been saved one after the other,
  starting from the store \<open>st\<close> (a group that does not assemble saves nothing).
\<close>

definition savedAfter ::
  "('s \<Rightarrow> string \<Rightarrow> ('a, 'm) TraceData \<Rightarrow> error option \<times> 's) \<Rightarrow> ('t \<Rightarrow> 'm::zero) \<Rightarrow> ('v \<Rightarrow> 'a)
     \<Rightarrow> 's \<Rightarrow> (TraceID \<times> ('v, 't) ReadOnlySpan list) list \<Rightarrow> 's" where
  "savedAfter save t a st gs =
     foldl (\<lambda>s g. case convertTrace t a (snd g) of
                     Inl _ \<Rightarrow> s
                   | Inr td \<Rightarrow> snd (save s (TraceID_String (fst g)) td)) st gs"

text \<open>A context that is never cancelled, and one that is cancelled from its \<open>k\<close>-th test on.\<close>

definition background :: "nat \<Rightarrow> error option" where
  "background n = None"

definition cancelledFrom :: "nat \<Rightarrow> nat \<Rightarrow> error option" where
  "cancelledFrom k n = (if n < k then None else Some (errors_New ''context canceled''))"

text \<open>
  A store that keeps the documents in the order they were saved, and refuses the
  trace id \<open>bad\<close>.
\<close>

definition listSave ::
  "string \<Rightarrow> (string \<times> (int, int) TraceData) list \<Rightarrow> string \<Rightarrow> (int, int) TraceData
     \<Rightarrow> error option \<times> (string \<times> (int, int) TraceData) list" where
  "listSave bad st tid td =
     (if tid = bad then (Some (errors_New ''save failed''), st) else (None, st @ [(tid, td)]))"

section \<open>Facts about the conversion of a span\<close>

lemma hex_length: "length (hex_EncodeToString src) = 2 * length src"
  by (induction src) (simp_all add: hex_EncodeToString_def)

lemma SpanID_String_length: "length (SpanID_String s) = 16"
  by (simp add: SpanID_String_def hex_length SpanID_bytes_def)

lemma SpanID_String_nonempty: "SpanID_String s \<noteq> []"
  using SpanID_String_length [of s] by auto

lemma convertSpan_ParentSpanID:
  "SpanData.ParentSpanID (convertSpan t a span) =
     (if HasSpanID (ReadOnlySpan.Parent span)
      then SpanID_String (spanID (ReadOnlySpan.Parent span)) else [])"
  by (simp add: convertSpan_def Let_def)

lemma parentless_iff:
  "SpanData.ParentSpanID (convertSpan t a span) = [] \<longleftrightarrow> \<not> HasSpanID (ReadOnlySpan.Parent span)"
  by (simp add: convertSpan_ParentSpanID SpanID_String_nonempty)

lemma convertSpan_SpanID:
  "SpanData.SpanID (convertSpan t a span) = SpanID_String (spanID (ReadOnlySpan.SpanContext span))"
  by (simp add: convertSpan_def Let_def)

lemma convertSpan_StartTime:
  "SpanData.StartTime (convertSpan t a span) = t (ReadOnlySpan.StartTime span)"
  by (simp add: convertSpan_def Let_def)

lemma convertSpan_EndTime:
  "SpanData.EndTime (convertSpan t a span) = t (ReadOnlySpan.EndTime span)"
  by (simp add: convertSpan_def Let_def)

lemma convertSpan_DisplayName: "SpanData.DisplayName (convertSpan t a s) = ReadOnlySpan.Name s"
  by (simp add: convertSpan_def Let_def)

lemma attributesToMap_map_of:
  "attributesToMap f attrs =
     map_of (rev (map (\<lambda>a. (Key a, f (attribute_KeyValue.Value a))) attrs))"
proof -
  have "foldl (\<lambda>m a. m(Key a \<mapsto> f (attribute_KeyValue.Value a))) m0 attrs
        = m0 ++ map_of (rev (map (\<lambda>a. (Key a, f (attribute_KeyValue.Value a))) attrs))" for m0
    by (induction attrs arbitrary: m0) (simp_all add: map_add_upd_left)
  then show ?thesis by (simp add: attributesToMap_def)
qed

lemma map_of_rev_last:
  assumes "k \<notin> fst ` set post"
  shows "map_of (rev (pre @ (k, v) # post)) k = Some v"
proof -
  from assms have "map_of (rev post) k = None"
    by (simp add: map_of_eq_None_iff)
  then show ?thesis
    by (simp add: map_of_append map_add_def)
qed

section \<open>Facts about the assembly of a trace\<close>

lemma newTraceData_fields:
  "TraceData.DisplayName newTraceData = []"
  "TraceData.StartTime newTraceData = 0"
  "TraceData.EndTime newTraceData = 0"
  "Spans newTraceData = Map.empty"
  by (simp_all add: newTraceData_def)

lemma convertTrace_loop_append:
  "convertTrace_loop t a td (xs @ ys) =
     (case convertTrace_loop t a td xs of Inl e \<Rightarrow> Inl e | Inr td' \<Rightarrow> convertTrace_loop t a td' ys)"
  by (induction xs arbitrary: td) (simp_all add: Let_def)

lemma upd_then_add: "m(k \<mapsto> v) ++ map_of (rev es) = m ++ map_of (rev ((k, v) # es))"
  by (rule ext) (simp add: map_add_def split: option.splits)

lemma convertTrace_loop_Spans:
  "convertTrace_loop t a td spans = Inr td' \<Longrightarrow>
     Spans td' = Spans td ++ map_of (rev (spanEntries t a spans))"
proof (induction spans arbitrary: td)
  case Nil
  then show ?case by (simp add: spanEntries_def)
next
  case (Cons s spans)
  let ?c = "convertSpan t a s"
  let ?m = "(Spans td)(SpanData.SpanID ?c \<mapsto> ?c)"
  let ?td_root = "td\<lparr> TraceData.DisplayName := SpanData.DisplayName ?c,
                        TraceData.StartTime := SpanData.StartTime ?c,
                        TraceData.EndTime := SpanData.EndTime ?c,
                        Spans := ?m \<rparr>"
  let ?td_child = "td\<lparr> Spans := ?m \<rparr>"
  have e: "spanEntries t a (s # spans) = (SpanData.SpanID ?c, ?c) # spanEntries t a spans"
    by (simp add: spanEntries_def)
  have "Spans td' = ?m ++ map_of (rev (spanEntries t a spans))"
  proof (cases "SpanData.ParentSpanID ?c = []")
    case True
    with Cons.prems have "convertTrace_loop t a ?td_root spans = Inr td'"
      by (simp add: Let_def split: if_splits)
    from Cons.IH [OF this] show ?thesis by (simp add: fun_upd_def)
  next
    case False
    with Cons.prems have "convertTrace_loop t a ?td_child spans = Inr td'"
      by (simp add: Let_def)
    from Cons.IH [OF this] show ?thesis by (simp add: fun_upd_def)
  qed
  then show ?case by (simp only: e upd_then_add)
qed

lemma convertTrace_loop_no_root:
  "\<forall>s\<in>set spans. SpanData.ParentSpanID (convertSpan t a s) \<noteq> [] \<Longrightarrow>
     \<exists>td'. convertTrace_loop t a td spans = Inr td' \<and>
       TraceData.DisplayName td' = TraceData.DisplayName td \<and>
       TraceData.StartTime td' = TraceData.StartTime td \<and>
       TraceData.EndTime td' = TraceData.EndTime td"
proof (induction spans arbitrary: td)
  case Nil
  then show ?case by simp
next
  case (Cons s spans)
  let ?c = "convertSpan t a s"
  from Cons.prems have r: "\<forall>s\<in>set spans. SpanData.ParentSpanID (convertSpan t a s) \<noteq> []"
    and nr: "SpanData.ParentSpanID ?c \<noteq> []" by simp_all
  from Cons.IH [OF r, of "td\<lparr> Spans := (Spans td)(SpanData.SpanID ?c \<mapsto> ?c) \<rparr>"] nr
  show ?case by (simp add: Let_def)
qed

lemma convertTrace_loop_fails_iff:
  "(\<exists>e. convertTrace_loop t a td spans = Inl e) \<longleftrightarrow>
     (filter (\<lambda>s. SpanData.ParentSpanID (convertSpan t a s) = []) spans \<noteq> [] \<and>
       (TraceData.DisplayName td \<noteq> [] \<or>
         (\<exists>r\<in>set (butlast (filter (\<lambda>s. SpanData.ParentSpanID (convertSpan t a s) = []) spans)).
            ReadOnlySpan.Name r \<noteq> [])))"
proof (induction spans arbitrary: td)
  case Nil
  then show ?case by simp
next
  case (Cons s spans)
  let ?c = "convertSpan t a s"
  show ?case
  proof (cases "SpanData.ParentSpanID ?c = []")
    case True
    show ?thesis
    proof (cases "TraceData.DisplayName td = []")
      case d: True
      show ?thesis using True d
        by (auto simp add: Let_def Cons.IH convertSpan_DisplayName)
    next
      case False
      then show ?thesis using True by (simp add: Let_def)
    qed
  next
    case False
    then show ?thesis by (simp add: Let_def Cons.IH)
  qed
qed

lemma convertTrace_loop_root_first:
  assumes "SpanData.ParentSpanID (convertSpan t a r) = []"
    and "TraceData.DisplayName td = []"
    and "\<forall>s\<in>set post. SpanData.ParentSpanID (convertSpan t a s) \<noteq> []"
  shows "\<exists>td'. convertTrace_loop t a td (r # post) = Inr td' \<and>
       TraceData.DisplayName td' = SpanData.DisplayName (convertSpan t a r) \<and>
       TraceData.StartTime td' = SpanData.StartTime (convertSpan t a r) \<and>
       TraceData.EndTime td' = SpanData.EndTime (convertSpan t a r)"
proof -
  let ?c = "convertSpan t a r"
  let ?td1 = "td\<lparr> TraceData.DisplayName := SpanData.DisplayName ?c,
                     TraceData.StartTime := SpanData.StartTime ?c,
                     TraceData.EndTime := SpanData.EndTime ?c,
                     Spans := (Spans td)(SpanData.SpanID ?c \<mapsto> ?c) \<rparr>"
  have "convertTrace_loop t a td (r # post) = convertTrace_loop t a ?td1 post"
    using assms(1,2) by (simp add: Let_def)
  with convertTrace_loop_no_root [OF assms(3), of ?td1] show ?thesis
    by simp
qed

lemma convertTrace_Spans:
  "convertTrace t a spans = Inr td \<Longrightarrow> Spans td = map_of (rev (spanEntries t a spans))"
  using convertTrace_loop_Spans [of t a newTraceData spans td]
  by (simp add: convertTrace_def newTraceData_fields)

lemma fst_spanEntries:
  "fst ` set (spanEntries t a spans) = (\<lambda>s. SpanData.SpanID (convertSpan t a s)) ` set spans"
  by (simp add: spanEntries_def image_image)

lemma spanEntries_split:
  "spanEntries t a (pre @ s # post) =
     spanEntries t a pre @ (SpanData.SpanID (convertSpan t a s), convertSpan t a s) # spanEntries t a post"
  by (simp add: spanEntries_def)

lemma convertTrace_Spans_last:
  assumes td: "convertTrace t a spans = Inr td"
    and sp: "spans = pre @ s # post"
    and last: "SpanData.SpanID (convertSpan t a s) \<notin> (\<lambda>x. SpanData.SpanID (convertSpan t a x)) ` set post"
  shows "Spans td (SpanData.SpanID (convertSpan t a s)) = Some (convertSpan t a s)"
proof -
  from last have "SpanData.SpanID (convertSpan t a s) \<notin> fst ` set (spanEntries t a post)"
    by (simp add: fst_spanEntries)
  from map_of_rev_last [OF this] show ?thesis
    by (simp only: convertTrace_Spans [OF td] sp spanEntries_split)
qed

lemma convertTrace_Spans_dom:
  assumes td: "convertTrace t a spans = Inr td"
  shows "dom (Spans td) = (\<lambda>s. SpanData.SpanID (convertSpan t a s)) ` set spans"
  by (simp add: convertTrace_Spans [OF td] dom_map_of_conv_image_fst fst_spanEntries)

lemma convertTrace_Spans_entry:
  assumes td: "convertTrace t a spans = Inr td" and e: "Spans td k = Some sd"
  shows "SpanData.SpanID sd = k \<and> sd \<in> convertSpan t a ` set spans"
proof -
  from e have "(k, sd) \<in> set (spanEntries t a spans)"
    using map_of_SomeD [of "rev (spanEntries t a spans)" k sd]
    by (simp add: convertTrace_Spans [OF td])
  then show ?thesis by (auto simp: spanEntries_def)
qed

lemma convertTrace_fails_iff:
  "(\<exists>e. convertTrace t a spans = Inl e) \<longleftrightarrow>
     (\<exists>r\<in>set (butlast (filter (\<lambda>s. \<not> HasSpanID (ReadOnlySpan.Parent s)) spans)).
        ReadOnlySpan.Name r \<noteq> [])"
proof -
  have "butlast (filter (\<lambda>s. \<not> HasSpanID (ReadOnlySpan.Parent s)) spans) \<noteq> [] \<Longrightarrow>
        filter (\<lambda>s. \<not> HasSpanID (ReadOnlySpan.Parent s)) spans \<noteq> []"
    by auto
  then show ?thesis
    unfolding convertTrace_def convertTrace_loop_fails_iff newTraceData_fields parentless_iff
    by auto
qed

lemma convertTrace_succeeds_iff:
  "(\<exists>td. convertTrace t a spans = Inr td) \<longleftrightarrow>
     \<not> (\<exists>r\<in>set (butlast (filter (\<lambda>s. \<not> HasSpanID (ReadOnlySpan.Parent s)) spans)).
          ReadOnlySpan.Name r \<noteq> [])"
  using convertTrace_fails_iff [of t a spans]
  by (cases "convertTrace t a spans") simp_all

lemma convertTrace_single:
  "\<exists>td. convertTrace t a [s] = Inr td"
  by (simp add: convertTrace_succeeds_iff)

lemma convertTrace_projr:
  "\<exists>td. convertTrace t a spans = Inr td \<Longrightarrow>
     convertTrace t a spans = Inr (projr (convertTrace t a spans))"
  by auto

section \<open>Facts about the export loop\<close>

lemma exportLoop_append:
  "exportLoop ctx save t a n st (pre @ rest) =
     (case exportLoop ctx save t a n st pre of
        (None, st', n') \<Rightarrow> exportLoop ctx save t a n' st' rest
      | (Some e, st', n') \<Rightarrow> (Some e, st', n'))"
proof (induction pre arbitrary: n st)
  case Nil
  show ?case by simp
next
  case (Cons g pre)
  obtain tid spans where g: "g = (tid, spans)" by (cases g)
  show ?case
    by (simp add: g Cons.IH split: option.splits sum.splits prod.splits)
qed

lemma exportLoop_success_count:
  "exportLoop ctx save t a n st gs = (None, st', n') \<Longrightarrow> n' = n + length gs"
proof (induction gs arbitrary: n st)
  case Nil
  then show ?case by simp
next
  case (Cons g gs)
  obtain tid spans where g: "g = (tid, spans)" by (cases g)
  from Cons.prems show ?case
    by (auto simp: g split: option.splits sum.splits prod.splits dest: Cons.IH)
qed

lemma exportLoop_ctx_cong:
  "(\<forall>i<length gs. ctx' (n + i) = ctx (n + i)) \<Longrightarrow>
     exportLoop ctx' save t a n st gs = exportLoop ctx save t a n st gs"
proof (induction gs arbitrary: n st)
  case Nil
  show ?case by simp
next
  case (Cons g gs)
  obtain tid spans where g: "g = (tid, spans)" by (cases g)
  from Cons.prems have h: "ctx' n = ctx n" by force
  have "\<forall>i<length gs. ctx' (Suc n + i) = ctx (Suc n + i)"
  proof (intro allI impI)
    fix i assume "i < length gs"
    then have "Suc i < length (g # gs)" by simp
    with Cons.prems have "ctx' (n + Suc i) = ctx (n + Suc i)" by blast
    then show "ctx' (Suc n + i) = ctx (Suc n + i)" by simp
  qed
  from Cons.IH [OF this] show ?case
    by (simp add: g h split: option.splits sum.splits prod.splits)
qed

lemma exportLoop_single:
  "exportLoop ctx save t a n st [(tid, spans)] =
     (case ctx n of
        Some err \<Rightarrow> (Some err, st, Suc n)
      | None \<Rightarrow>
          (case convertTrace t a spans of
             Inl err \<Rightarrow> (Some err, st, Suc n)
           | Inr td \<Rightarrow>
               (case save st (TraceID_String tid) td of
                  (Some err, st') \<Rightarrow> (Some err, st', Suc n)
                | (None, st') \<Rightarrow> (None, st', Suc n))))"
  by (simp split: option.splits sum.splits prod.splits)

lemma exportLoop_success_store:
  "exportLoop ctx save t a n st gs = (None, st', n') \<Longrightarrow>
     st' = savedAfter save t a st gs \<and> (\<forall>g\<in>set gs. \<exists>td. convertTrace t a (snd g) = Inr td)"
proof (induction gs arbitrary: n st)
  case Nil
  then show ?case by (simp add: savedAfter_def)
next
  case (Cons g gs)
  obtain tid spans where g: "g = (tid, spans)" by (cases g)
  from Cons.prems obtain td st1 where td: "convertTrace t a spans = Inr td"
    and sv: "save st (TraceID_String tid) td = (None, st1)"
    and rest: "exportLoop ctx save t a (Suc n) st1 gs = (None, st', n')"
    by (auto simp: g split: option.splits sum.splits prod.splits)
  from Cons.IH [OF rest] have "st' = savedAfter save t a st1 gs"
    and all: "\<forall>g\<in>set gs. \<exists>td. convertTrace t a (snd g) = Inr td"
    by simp_all
  then have "st' = savedAfter save t a st (g # gs)"
    by (simp add: savedAfter_def g td sv)
  with all td show ?case by (simp add: g)
qed

lemma groupByTrace_snoc:
  "groupByTrace (spans @ [span]) =
     (let tid = traceID (ReadOnlySpan.SpanContext span)
      in (groupByTrace spans)(tid \<mapsto> (case groupByTrace spans tid of None \<Rightarrow> [] | Some ss \<Rightarrow> ss) @ [span]))"
  by (simp add: groupByTrace_def)

lemma groupByTrace_filter:
  "groupByTrace spans tid =
     (if \<exists>s\<in>set spans. traceID (ReadOnlySpan.SpanContext s) = tid
      then Some (filter (\<lambda>s. traceID (ReadOnlySpan.SpanContext s) = tid) spans) else None)"
proof (induction spans arbitrary: tid rule: rev_induct)
  case Nil
  show ?case by (simp add: groupByTrace_def)
next
  case (snoc x xs)
  show ?case
    by (simp add: groupByTrace_snoc Let_def snoc.IH filter_empty_conv)
qed

section \<open>Facts about the sample data\<close>

lemma sampleSpan_fields:
  "ReadOnlySpan.Name (sampleSpan tid sid parent name start finish) = name"
  "traceID (ReadOnlySpan.SpanContext (sampleSpan tid sid parent name start finish)) = tid"
  "spanID (ReadOnlySpan.SpanContext (sampleSpan tid sid parent name start finish)) = sid"
  "spanID (ReadOnlySpan.Parent (sampleSpan tid sid parent name start finish)) = parent"
  "HasSpanID (ReadOnlySpan.Parent (sampleSpan tid sid parent name start finish)) = (parent \<noteq> 0)"
  "ReadOnlySpan.StartTime (sampleSpan tid sid parent name start finish) = start"
  "ReadOnlySpan.EndTime (sampleSpan tid sid parent name start finish) = finish"
  by (simp_all add: sampleSpan_def HasSpanID_def SpanID_IsValid_def nilSpanID_def)

lemma SpanID_String_samples:
  "SpanID_String 1 = ''0000000000000001''"
  "SpanID_String 2 = ''0000000000000002''"
  "SpanID_String 3 = ''0000000000000003''"
  "SpanID_String 0xab = ''00000000000000ab''"
  by code_simp+

lemma TraceID_String_samples:
  "TraceID_String 1 = ''00000000000000000000000000000001''"
  "TraceID_String 2 = ''00000000000000000000000000000002''"
  "TraceID_String 3 = ''00000000000000000000000000000003''"
  by code_simp+

section \<open>The claims\<close>

text \<open>
  C1. The claim: a trace group with two or more parentless spans makes \<^verbatim>\<open>convertTrace\<close> fail
  with the error \<open>MultipleRootSpans\<close>, and no document is saved for the trace.
  The loop does not count parentless spans: it asks whether \<^verbatim>\<open>td.DisplayName\<close> is still
  empty. When the first parentless span has the empty name, the second one passes the test.
  The group below has two parentless spans, the first unnamed: \<^verbatim>\<open>convertTrace\<close> returns a
  document whose header is that of the second span, and \<^verbatim>\<open>ExportSpans\<close> saves it.
\<close>

theorem convertTrace_multiple_roots_unnamed_first:
  "length (filter (\<lambda>s. SpanData.ParentSpanID (convertSpan id id s) = [])
      [sampleSpan 7 1 0 [] 10 20, sampleSpan 7 2 0 ''second'' 30 40]) = 2 \<and>
   (\<exists>td. convertTrace id id [sampleSpan 7 1 0 [] 10 20, sampleSpan 7 2 0 ''second'' 30 40] = Inr td \<and>
      TraceData.DisplayName td = ''second'' \<and> TraceData.StartTime td = 30 \<and>
      TraceData.EndTime td = 40 \<and>
      ExportSpans background (listSave []) id id [7] []
          [sampleSpan 7 1 0 [] 10 20, sampleSpan 7 2 0 ''second'' 30 40] =
        (None, [(TraceID_String 7, td)], 1))"
proof -
  let ?r1 = "sampleSpan 7 1 0 [] 10 20"
  let ?r2 = "sampleSpan 7 2 0 ''second'' 30 40"
  let ?c1 = "convertSpan id id ?r1"
  let ?td1 = "newTraceData\<lparr> TraceData.DisplayName := SpanData.DisplayName ?c1,
                     TraceData.StartTime := SpanData.StartTime ?c1,
                     TraceData.EndTime := SpanData.EndTime ?c1,
                     Spans := (Spans newTraceData)(SpanData.SpanID ?c1 \<mapsto> ?c1) \<rparr>"
  have two: "length (filter (\<lambda>s. SpanData.ParentSpanID (convertSpan id id s) = []) [?r1, ?r2]) = 2"
    by (simp add: parentless_iff sampleSpan_fields)
  have r1: "SpanData.ParentSpanID ?c1 = []"
    and r2: "SpanData.ParentSpanID (convertSpan id id ?r2) = []"
    by (simp_all add: parentless_iff sampleSpan_fields)
  have step: "convertTrace id id [?r1, ?r2] = convertTrace_loop id id ?td1 [?r2]"
    unfolding convertTrace_def using r1 by (simp add: Let_def newTraceData_fields)
  have d1: "TraceData.DisplayName ?td1 = []"
    by (simp add: convertSpan_DisplayName sampleSpan_fields)
  from convertTrace_loop_root_first [OF r2 d1, of "[]"]
  obtain td where run: "convertTrace_loop id id ?td1 [?r2] = Inr td"
    and h: "TraceData.DisplayName td = SpanData.DisplayName (convertSpan id id ?r2)"
      "TraceData.StartTime td = SpanData.StartTime (convertSpan id id ?r2)"
      "TraceData.EndTime td = SpanData.EndTime (convertSpan id id ?r2)"
    by auto
  from run step have td: "convertTrace id id [?r1, ?r2] = Inr td" by simp
  have grp: "rangeMap [7] (groupByTrace [?r1, ?r2]) = [(7, [?r1, ?r2])]"
    by (simp add: rangeMap_def List.map_filter_simps groupByTrace_filter sampleSpan_fields)
  have tid: "TraceID_String 7 \<noteq> []"
    by code_simp
  have "ExportSpans background (listSave []) id id [7] [] [?r1, ?r2] =
        (None, [(TraceID_String 7, td)], 1)"
    by (simp add: ExportSpans_def grp background_def td listSave_def tid)
  with td h two show ?thesis
    by (simp add: convertSpan_DisplayName convertSpan_StartTime convertSpan_EndTime
        sampleSpan_fields)
qed

text \<open>
  C2. Export is not atomic across traces. Let the groups be visited in the order
  \<open>pre\<close>, then \<open>(tid, g)\<close>, then \<open>post\<close>; let the groups of \<open>pre\<close> be exported without
  error, leaving the store \<open>st'\<close>; let the context be live when \<open>g\<close> is reached. If the
  assembly of \<open>g\<close> fails, or the store refuses its document, with the error \<open>err\<close>, then:
  \<open>st'\<close> is the store in which the documents of \<open>pre\<close> have been saved, in order;
  \<^verbatim>\<open>ExportSpans\<close> returns \<open>err\<close>, with the store \<open>st'\<close> when the assembly failed and what
  the refusing \<^verbatim>\<open>Save\<close> left of \<open>st'\<close> otherwise; and the result is the one of the
  loop over \<open>pre\<close> and \<open>g\<close> alone, so that no group of \<open>post\<close> is assembled or saved.
\<close>

theorem ExportSpans_first_error_aborts:
  assumes gs: "rangeMap order (groupByTrace spans) = pre @ (tid, g) # post"
    and pre: "exportLoop ctx save t a 0 st pre = (None, st', n')"
    and live: "ctx n' = None"
    and fails: "convertTrace t a g = Inl err \<or>
       (\<exists>td. convertTrace t a g = Inr td \<and> fst (save st' (TraceID_String tid) td) = Some err)"
  shows "st' = savedAfter save t a st pre \<and>
     ExportSpans ctx save t a order st spans =
       (Some err,
        (case convertTrace t a g of
           Inl _ \<Rightarrow> st'
         | Inr td \<Rightarrow> snd (save st' (TraceID_String tid) td)),
        Suc n') \<and>
     ExportSpans ctx save t a order st spans =
       exportLoop ctx save t a 0 st (pre @ [(tid, g)])"
proof (intro conjI)
  show "st' = savedAfter save t a st pre"
    using exportLoop_success_store [OF pre] by simp
  have run: "ExportSpans ctx save t a order st spans =
          exportLoop ctx save t a n' st' ((tid, g) # post)"
    by (simp add: ExportSpans_def gs exportLoop_append pre)
  with live fails show res: "ExportSpans ctx save t a order st spans =
       (Some err,
        (case convertTrace t a g of
           Inl _ \<Rightarrow> st'
         | Inr td \<Rightarrow> snd (save st' (TraceID_String tid) td)),
        Suc n')"
    by (auto split: prod.splits option.splits)
  have "exportLoop ctx save t a 0 st (pre @ [(tid, g)]) =
      exportLoop ctx save t a n' st' [(tid, g)]"
    by (simp add: exportLoop_append pre)
  also from live fails have "\<dots> = (Some err,
        (case convertTrace t a g of
           Inl _ \<Rightarrow> st'
         | Inr td \<Rightarrow> snd (save st' (TraceID_String tid) td)),
        Suc n')"
    by (auto simp: exportLoop_single split: prod.splits option.splits)
  finally show "ExportSpans ctx save t a order st spans =
       exportLoop ctx save t a 0 st (pre @ [(tid, g)])"
    using res by simp
qed

text \<open>
  Three traces visited in the order 1, 2, 3. First batch: trace 2 has two named roots, so
  its assembly fails after trace 1 was saved. Second batch: the store refuses trace 2.
  In both the document of trace 1 stays in the store and trace 3 is never saved.
\<close>

theorem ExportSpans_first_error_aborts_witness:
  "ExportSpans background (listSave []) id id [1, 2, 3] []
      [sampleSpan 1 1 0 ''a'' 10 20, sampleSpan 2 1 0 ''b'' 10 20, sampleSpan 2 2 0 ''c'' 11 12,
       sampleSpan 3 1 0 ''d'' 1 2] =
     (Some MultipleRootSpans,
      [(TraceID_String 1, projr (convertTrace id id [sampleSpan 1 1 0 ''a'' 10 20]))], 2) \<and>
   ExportSpans background (listSave (TraceID_String 2)) id id [1, 2, 3] []
      [sampleSpan 1 1 0 ''a'' 10 20, sampleSpan 2 1 0 ''b'' 10 20, sampleSpan 3 1 0 ''d'' 1 2] =
     (Some (errors_New ''save failed''),
      [(TraceID_String 1, projr (convertTrace id id [sampleSpan 1 1 0 ''a'' 10 20]))], 2)"
proof -
  let ?a = "sampleSpan 1 1 0 ''a'' 10 20"
  let ?b = "sampleSpan 2 1 0 ''b'' 10 20"
  let ?c = "sampleSpan 2 2 0 ''c'' 11 12"
  let ?d = "sampleSpan 3 1 0 ''d'' 1 2"
  obtain td1 :: "(int, int) TraceData" where td1: "convertTrace id id [?a] = Inr td1"
    using convertTrace_single by blast
  obtain td2 :: "(int, int) TraceData" where td2: "convertTrace id id [?b] = Inr td2"
    using convertTrace_single by blast
  have ids: "TraceID_String 1 \<noteq> []" "TraceID_String 1 \<noteq> TraceID_String 2"
    by (simp_all add: TraceID_String_samples)
  have gs1: "rangeMap [1, 2, 3] (groupByTrace [?a, ?b, ?c, ?d]) =
      [(1, [?a])] @ (2, [?b, ?c]) # [(3, [?d])]"
    by (simp add: rangeMap_def List.map_filter_simps groupByTrace_filter sampleSpan_fields)
  have gs2: "rangeMap [1, 2, 3] (groupByTrace [?a, ?b, ?d]) =
      [(1, [?a])] @ (2, [?b]) # [(3, [?d])]"
    by (simp add: rangeMap_def List.map_filter_simps groupByTrace_filter sampleSpan_fields)
  have pre1: "exportLoop background (listSave []) id id 0 [] [(1, [?a])] =
      (None, [(TraceID_String 1, td1)], 1)"
    by (simp add: exportLoop_single background_def td1 listSave_def ids)
  have pre2: "exportLoop background (listSave (TraceID_String 2)) id id 0 [] [(1, [?a])] =
      (None, [(TraceID_String 1, td1)], 1)"
    by (simp add: exportLoop_single background_def td1 listSave_def ids)
  have live: "background 1 = None"
    by (simp add: background_def)
  have bad: "convertTrace id id [?b, ?c] = (Inl MultipleRootSpans :: error + (int, int) TraceData)"
    by (simp add: convertTrace_def Let_def parentless_iff sampleSpan_fields newTraceData_fields
        convertSpan_DisplayName)
  have refused: "\<exists>td. convertTrace id id [?b] = Inr td \<and>
      fst (listSave (TraceID_String 2) [(TraceID_String 1, td1)] (TraceID_String 2) td) =
        Some (errors_New ''save failed'')"
    by (simp add: td2 listSave_def)
  from ExportSpans_first_error_aborts [OF gs1 pre1 live disjI1 [OF bad], THEN conjunct2, THEN conjunct1]
  have r1: "ExportSpans background (listSave []) id id [1, 2, 3] [] [?a, ?b, ?c, ?d] =
      (Some MultipleRootSpans, [(TraceID_String 1, td1)], 2)"
    by (simp add: bad)
  have kept: "(case convertTrace id id [?b] of
         Inl _ \<Rightarrow> [(TraceID_String 1, td1)]
       | Inr td \<Rightarrow>
           snd (listSave (TraceID_String 2) [(TraceID_String 1, td1)] (TraceID_String 2) td)) =
      [(TraceID_String 1, td1)]"
    by (simp add: td2 listSave_def)
  from ExportSpans_first_error_aborts [OF gs2 pre2 live disjI2 [OF refused], THEN conjunct2, THEN conjunct1]
  have r2: "ExportSpans background (listSave (TraceID_String 2)) id id [1, 2, 3] [] [?a, ?b, ?d] =
      (Some (errors_New ''save failed''), [(TraceID_String 1, td1)], 2)"
    by (simp only: kept One_nat_def numeral_2_eq_2)
  from r1 r2 show ?thesis
    by (simp add: td1)
qed

text \<open>
  C3. The context is tested once per trace group, before the group is assembled and saved.
  With the groups visited in the order \<open>pre\<close>, \<open>(tid, g)\<close>, \<open>post\<close> and the groups of
  \<open>pre\<close> exported without error: the number of tests made so far is the number of groups of
  \<open>pre\<close>; if the test for \<open>g\<close> finds the context cancelled, \<^verbatim>\<open>ExportSpans\<close> returns the
  context's error with the store as \<open>pre\<close> left it, after one more test; if it finds
  the context live, \<open>g\<close> is converted and, when the conversion succeeds, saved, whatever the
  context says later; and the whole result depends on the context only through its
  answers at the tests, one per group.
\<close>

theorem ExportSpans_cancellation:
  assumes gs: "rangeMap order (groupByTrace spans) = pre @ (tid, g) # post"
    and pre: "exportLoop ctx save t a 0 st pre = (None, st', n')"
  shows "n' = length pre \<and>
    (ctx n' = Some err \<longrightarrow> ExportSpans ctx save t a order st spans = (Some err, st', Suc n')) \<and>
    (ctx n' = None \<longrightarrow> ExportSpans ctx save t a order st spans =
       (case convertTrace t a g of
          Inl e \<Rightarrow> (Some e, st', Suc n')
        | Inr td \<Rightarrow>
            (case save st' (TraceID_String tid) td of
               (Some e, st'') \<Rightarrow> (Some e, st'', Suc n')
             | (None, st'') \<Rightarrow> exportLoop ctx save t a (Suc n') st'' post))) \<and>
    ((\<forall>i<length (rangeMap order (groupByTrace spans)). ctx' i = ctx i) \<longrightarrow>
       ExportSpans ctx' save t a order st spans = ExportSpans ctx save t a order st spans)"
proof -
  have run: "ExportSpans ctx save t a order st spans =
          exportLoop ctx save t a n' st' ((tid, g) # post)"
    by (simp add: ExportSpans_def gs exportLoop_append pre)
  have cnt: "n' = length pre"
    using exportLoop_success_count [OF pre] by simp
  have cong: "(\<forall>i<length (rangeMap order (groupByTrace spans)). ctx' i = ctx i) \<longrightarrow>
       ExportSpans ctx' save t a order st spans = ExportSpans ctx save t a order st spans"
    using exportLoop_ctx_cong [of "rangeMap order (groupByTrace spans)" ctx' 0 ctx save t a st]
    by (simp add: ExportSpans_def)
  have cancelled: "ctx n' = Some err \<longrightarrow>
      ExportSpans ctx save t a order st spans = (Some err, st', Suc n')"
    by (simp add: run)
  have live: "ctx n' = None \<longrightarrow> ExportSpans ctx save t a order st spans =
       (case convertTrace t a g of
          Inl e \<Rightarrow> (Some e, st', Suc n')
        | Inr td \<Rightarrow>
            (case save st' (TraceID_String tid) td of
               (Some e, st'') \<Rightarrow> (Some e, st'', Suc n')
             | (None, st'') \<Rightarrow> exportLoop ctx save t a (Suc n') st'' post))"
    by (simp add: run)
  from cnt cancelled live cong show ?thesis
    by (intro conjI)
qed

text \<open>
  Three traces of one root each, visited in the order 1, 2, 3: a context cancelled from
  its second test on stops the export after trace 1; a live context lets the three be
  saved with three tests; a context cancelled only after the third test changes nothing.
\<close>

theorem ExportSpans_cancellation_witness:
  "ExportSpans (cancelledFrom 1) (listSave []) id id [1, 2, 3] []
      [sampleSpan 1 1 0 ''a'' 10 20, sampleSpan 2 1 0 ''b'' 10 20, sampleSpan 3 1 0 ''d'' 1 2] =
     (Some (errors_New ''context canceled''),
      [(TraceID_String 1, projr (convertTrace id id [sampleSpan 1 1 0 ''a'' 10 20]))], 2) \<and>
   ExportSpans background (listSave []) id id [1, 2, 3] []
      [sampleSpan 1 1 0 ''a'' 10 20, sampleSpan 2 1 0 ''b'' 10 20, sampleSpan 3 1 0 ''d'' 1 2] =
     (None,
      [(TraceID_String 1, projr (convertTrace id id [sampleSpan 1 1 0 ''a'' 10 20])),
       (TraceID_String 2, projr (convertTrace id id [sampleSpan 2 1 0 ''b'' 10 20])),
       (TraceID_String 3, projr (convertTrace id id [sampleSpan 3 1 0 ''d'' 1 2]))], 3) \<and>
   ExportSpans (cancelledFrom 3) (listSave []) id id [1, 2, 3] []
      [sampleSpan 1 1 0 ''a'' 10 20, sampleSpan 2 1 0 ''b'' 10 20, sampleSpan 3 1 0 ''d'' 1 2] =
   ExportSpans background (listSave []) id id [1, 2, 3] []
      [sampleSpan 1 1 0 ''a'' 10 20, sampleSpan 2 1 0 ''b'' 10 20, sampleSpan 3 1 0 ''d'' 1 2]"
proof -
  let ?a = "sampleSpan 1 1 0 ''a'' 10 20"
  let ?b = "sampleSpan 2 1 0 ''b'' 10 20"
  let ?d = "sampleSpan 3 1 0 ''d'' 1 2"
  obtain td1 :: "(int, int) TraceData" where td1: "convertTrace id id [?a] = Inr td1"
    using convertTrace_single by blast
  obtain td2 :: "(int, int) TraceData" where td2: "convertTrace id id [?b] = Inr td2"
    using convertTrace_single by blast
  obtain td3 :: "(int, int) TraceData" where td3: "convertTrace id id [?d] = Inr td3"
    using convertTrace_single by blast
  have ids: "TraceID_String 1 \<noteq> []" "TraceID_String 2 \<noteq> []" "TraceID_String 3 \<noteq> []"
    by (simp_all add: TraceID_String_samples)
  have gs: "rangeMap [1, 2, 3] (groupByTrace [?a, ?b, ?d]) =
      [(1, [?a])] @ (2, [?b]) # [(3, [?d])]"
    by (simp add: rangeMap_def List.map_filter_simps groupByTrace_filter sampleSpan_fields)
  have len: "length (rangeMap [1, 2, 3] (groupByTrace [?a, ?b, ?d])) = 3"
    by (simp add: gs)
  have pre_c: "exportLoop (cancelledFrom 1) (listSave []) id id 0 [] [(1, [?a])] =
      (None, [(TraceID_String 1, td1)], 1)"
    by (simp add: exportLoop_single cancelledFrom_def td1 listSave_def ids)
  have pre_b: "exportLoop background (listSave []) id id 0 [] [(1, [?a])] =
      (None, [(TraceID_String 1, td1)], 1)"
    by (simp add: exportLoop_single background_def td1 listSave_def ids)
  have c: "cancelledFrom 1 1 = Some (errors_New ''context canceled'')"
    by (simp add: cancelledFrom_def)
  have b: "background 1 = None"
    by (simp add: background_def)
  have agree: "\<forall>i<length (rangeMap [1, 2, 3] (groupByTrace [?a, ?b, ?d])).
      cancelledFrom 3 i = background i"
    by (simp add: len cancelledFrom_def background_def)
  from ExportSpans_cancellation [OF gs pre_c, of "errors_New ''context canceled''"] c
  have r1: "ExportSpans (cancelledFrom 1) (listSave []) id id [1, 2, 3] [] [?a, ?b, ?d] =
      (Some (errors_New ''context canceled''), [(TraceID_String 1, td1)], 2)"
    by simp
  from ExportSpans_cancellation [OF gs pre_b] b
  have "ExportSpans background (listSave []) id id [1, 2, 3] [] [?a, ?b, ?d] =
      (case convertTrace id id [?b] of
         Inl e \<Rightarrow> (Some e, [(TraceID_String 1, td1)], Suc 1)
       | Inr td \<Rightarrow>
           (case listSave [] [(TraceID_String 1, td1)] (TraceID_String 2) td of
              (Some e, st'') \<Rightarrow> (Some e, st'', Suc 1)
            | (None, st'') \<Rightarrow> exportLoop background (listSave []) id id (Suc 1) st'' [(3, [?d])]))"
    by blast
  also have "\<dots> =
      (None, [(TraceID_String 1, td1), (TraceID_String 2, td2), (TraceID_String 3, td3)], 3)"
    by (simp add: td2 td3 listSave_def ids exportLoop_single background_def)
  finally have r2: "ExportSpans background (listSave []) id id [1, 2, 3] [] [?a, ?b, ?d] =
      (None, [(TraceID_String 1, td1), (TraceID_String 2, td2), (TraceID_String 3, td3)], 3)" .
  from ExportSpans_cancellation [OF gs pre_b, of _ "cancelledFrom 3"] agree
  have r3: "ExportSpans (cancelledFrom 3) (listSave []) id id [1, 2, 3] [] [?a, ?b, ?d] =
      ExportSpans background (listSave []) id id [1, 2, 3] [] [?a, ?b, ?d]"
    by blast
  from r1 r2 r3 show ?thesis
    by (simp add: td1 td2 td3)
qed

text \<open>
  C4. For every trace group with exactly one parentless span \<open>r\<close>, the assembly succeeds
  and the document's \<^verbatim>\<open>DisplayName\<close>, \<^verbatim>\<open>StartTime\<close> and \<^verbatim>\<open>EndTime\<close> are those of the
  converted \<open>r\<close>: its name and its converted start and end times.
\<close>

theorem convertTrace_unique_root:
  assumes one: "length (filter (\<lambda>s. SpanData.ParentSpanID (convertSpan t a s) = []) spans) = 1"
    and r: "r \<in> set spans" "SpanData.ParentSpanID (convertSpan t a r) = []"
  shows "\<exists>td. convertTrace t a spans = Inr td \<and>
       TraceData.DisplayName td = SpanData.DisplayName (convertSpan t a r) \<and>
       TraceData.StartTime td = SpanData.StartTime (convertSpan t a r) \<and>
       TraceData.EndTime td = SpanData.EndTime (convertSpan t a r) \<and>
       TraceData.DisplayName td = ReadOnlySpan.Name r \<and>
       TraceData.StartTime td = t (ReadOnlySpan.StartTime r) \<and>
       TraceData.EndTime td = t (ReadOnlySpan.EndTime r)"
proof -
  let ?P = "\<lambda>s. SpanData.ParentSpanID (convertSpan t a s) = []"
  from r have "r \<in> set (filter ?P spans)" by simp
  moreover from one obtain x where x: "filter ?P spans = [x]"
    by (cases "filter ?P spans") auto
  ultimately have "filter ?P spans = [r]" by simp
  then have "\<exists>us vs. spans = us @ r # vs \<and> (\<forall>u\<in>set us. \<not> ?P u) \<and> ?P r \<and> [] = filter ?P vs"
    by (simp only: filter_eq_Cons_iff)
  then obtain pre post where sp: "spans = pre @ r # post"
    and pre: "\<forall>s\<in>set pre. \<not> ?P s" and post: "[] = filter ?P post"
    by (elim exE conjE)
  from post have post': "\<forall>s\<in>set post. SpanData.ParentSpanID (convertSpan t a s) \<noteq> []"
    by (simp add: empty_filter_conv)
  from pre have pre': "\<forall>s\<in>set pre. SpanData.ParentSpanID (convertSpan t a s) \<noteq> []" by simp
  from convertTrace_loop_no_root [OF pre', of newTraceData]
  obtain td1 where td1: "convertTrace_loop t a newTraceData pre = Inr td1"
    and d1: "TraceData.DisplayName td1 = []"
    unfolding newTraceData_fields by (elim exE conjE)
  from convertTrace_loop_root_first [OF r(2) d1 post']
  obtain td where run: "convertTrace_loop t a td1 (r # post) = Inr td"
    and h: "TraceData.DisplayName td = SpanData.DisplayName (convertSpan t a r)"
      "TraceData.StartTime td = SpanData.StartTime (convertSpan t a r)"
      "TraceData.EndTime td = SpanData.EndTime (convertSpan t a r)"
    by (elim exE conjE)
  have "convertTrace t a spans = convertTrace_loop t a td1 (r # post)"
    by (simp add: convertTrace_def sp convertTrace_loop_append td1)
  with run have res: "convertTrace t a spans = Inr td" by simp
  show ?thesis
  proof (intro exI [of _ td] conjI)
    show "convertTrace t a spans = Inr td" by (fact res)
    show "TraceData.DisplayName td = SpanData.DisplayName (convertSpan t a r)" by (fact h(1))
    show "TraceData.StartTime td = SpanData.StartTime (convertSpan t a r)" by (fact h(2))
    show "TraceData.EndTime td = SpanData.EndTime (convertSpan t a r)" by (fact h(3))
    show "TraceData.DisplayName td = ReadOnlySpan.Name r"
      by (simp only: h(1) convertSpan_DisplayName)
    show "TraceData.StartTime td = t (ReadOnlySpan.StartTime r)"
      by (simp only: h(2) convertSpan_StartTime)
    show "TraceData.EndTime td = t (ReadOnlySpan.EndTime r)"
      by (simp only: h(3) convertSpan_EndTime)
  qed
qed

theorem convertTrace_unique_root_witness:
  "length (filter (\<lambda>s. SpanData.ParentSpanID (convertSpan id id s) = [])
      [sampleSpan 1 2 1 ''child'' 12 18, sampleSpan 1 1 0 ''root'' 10 20]) = 1 \<and>
   (\<exists>td. convertTrace id id [sampleSpan 1 2 1 ''child'' 12 18, sampleSpan 1 1 0 ''root'' 10 20]
           = Inr td \<and>
      TraceData.DisplayName td = ''root'' \<and> TraceData.StartTime td = 10 \<and>
      TraceData.EndTime td = 20)"
proof -
  let ?c = "sampleSpan 1 2 1 ''child'' 12 18"
  let ?r = "sampleSpan 1 1 0 ''root'' 10 20"
  have h1: "length (filter (\<lambda>s. SpanData.ParentSpanID (convertSpan id id s) = []) [?c, ?r]) = 1"
    by (simp add: parentless_iff sampleSpan_fields)
  have h2: "?r \<in> set [?c, ?r]" by simp
  have h3: "SpanData.ParentSpanID (convertSpan id id ?r) = []"
    by (simp add: parentless_iff sampleSpan_fields)
  from convertTrace_unique_root [OF h1 h2 h3]
  obtain td where "convertTrace id id [?c, ?r] = Inr td"
    and "TraceData.DisplayName td = ReadOnlySpan.Name ?r"
    and "TraceData.StartTime td = id (ReadOnlySpan.StartTime ?r)"
    and "TraceData.EndTime td = id (ReadOnlySpan.EndTime ?r)"
    by (elim exE conjE)
  with h1 show ?thesis
    by (simp add: sampleSpan_fields)
qed

text \<open>
  C5. For every trace group without a parentless span, the assembly succeeds, the
  document's \<^verbatim>\<open>DisplayName\<close>, \<^verbatim>\<open>StartTime\<close> and \<^verbatim>\<open>EndTime\<close> keep their zero values, and
  the export loop, reaching the group with a live context, hands this document to
  \<^verbatim>\<open>Save\<close> under the group's trace id.
\<close>

theorem convertTrace_no_root:
  assumes "\<forall>s\<in>set spans. SpanData.ParentSpanID (convertSpan t a s) \<noteq> []"
  shows "\<exists>td. convertTrace t a spans = Inr td \<and>
       TraceData.DisplayName td = [] \<and> TraceData.StartTime td = 0 \<and> TraceData.EndTime td = 0 \<and>
       (ctx n = None \<longrightarrow>
          exportLoop ctx save t a n st ((tid, spans) # rest) =
            (case save st (TraceID_String tid) td of
               (Some err, st') \<Rightarrow> (Some err, st', Suc n)
             | (None, st') \<Rightarrow> exportLoop ctx save t a (Suc n) st' rest))"
proof -
  from convertTrace_loop_no_root [OF assms, of newTraceData]
  obtain td where td: "convertTrace t a spans = Inr td"
    and h: "TraceData.DisplayName td = []" "TraceData.StartTime td = 0" "TraceData.EndTime td = 0"
    unfolding convertTrace_def newTraceData_fields by (elim exE conjE)
  have "ctx n = None \<longrightarrow>
          exportLoop ctx save t a n st ((tid, spans) # rest) =
            (case save st (TraceID_String tid) td of
               (Some err, st') \<Rightarrow> (Some err, st', Suc n)
             | (None, st') \<Rightarrow> exportLoop ctx save t a (Suc n) st' rest)"
    by (simp add: td)
  with td h show ?thesis by (intro exI [of _ td] conjI)
qed

theorem convertTrace_no_root_witness:
  "SpanData.ParentSpanID (convertSpan id id (sampleSpan 1 2 1 ''child'' 12 18)) \<noteq> [] \<and>
   SpanData.ParentSpanID (convertSpan id id (sampleSpan 1 3 2 ''grandchild'' 13 14)) \<noteq> [] \<and>
   (\<exists>td. convertTrace id id [sampleSpan 1 2 1 ''child'' 12 18, sampleSpan 1 3 2 ''grandchild'' 13 14]
           = Inr td \<and>
      TraceData.DisplayName td = [] \<and> TraceData.StartTime td = 0 \<and> TraceData.EndTime td = 0 \<and>
      exportLoop background (listSave []) id id 0 []
        [(1, [sampleSpan 1 2 1 ''child'' 12 18, sampleSpan 1 3 2 ''grandchild'' 13 14])] =
        (None, [(TraceID_String 1, td)], 1))"
proof -
  let ?sp = "[sampleSpan 1 2 1 ''child'' 12 18, sampleSpan 1 3 2 ''grandchild'' 13 14]"
  have h: "\<forall>s\<in>set ?sp. SpanData.ParentSpanID (convertSpan id id s) \<noteq> []"
    by (simp add: parentless_iff sampleSpan_fields)
  from convertTrace_no_root [OF h, of background 0 "listSave []" "[]" 1 "[]"]
  obtain td where td: "convertTrace id id ?sp = Inr td"
    and z: "TraceData.DisplayName td = []" "TraceData.StartTime td = 0" "TraceData.EndTime td = 0"
    and run: "background 0 = None \<longrightarrow>
      exportLoop background (listSave []) id id 0 [] [(1, ?sp)] =
        (case listSave [] [] (TraceID_String 1) td of
           (Some err, st') \<Rightarrow> (Some err, st', Suc 0)
         | (None, st') \<Rightarrow> exportLoop background (listSave []) id id (Suc 0) st' [])"
    by (elim exE conjE)
  from run have "exportLoop background (listSave []) id id 0 [] [(1, ?sp)] =
        (None, [(TraceID_String 1, td)], 1)"
    by (simp add: background_def listSave_def TraceID_String_samples)
  with h td z show ?thesis by auto
qed

text \<open>
  C6. The claim: whenever the assembly succeeds, every converted span of the group is
  present in \<^verbatim>\<open>Spans\<close>, and every entry's \<^verbatim>\<open>SpanID\<close> is its key. The first half fails
  for a group in which two spans convert to the same id: the assignment
  \<^verbatim>\<open>td.Spans[cspan.SpanID] = cspan\<close> overwrites. Below, two spans with the span id 5 and
  different names: the assembly succeeds and the converted first span is nowhere in the map.
\<close>

theorem convertTrace_collision_loses_span:
  "convertTrace id id [sampleSpan 1 5 9 ''first'' 1 2, sampleSpan 1 5 9 ''second'' 3 4] =
     Inr (projr (convertTrace id id
       [sampleSpan 1 5 9 ''first'' 1 2, sampleSpan 1 5 9 ''second'' 3 4])) \<and>
   Spans (projr (convertTrace id id
       [sampleSpan 1 5 9 ''first'' 1 2, sampleSpan 1 5 9 ''second'' 3 4]))
     (SpanData.SpanID (convertSpan id id (sampleSpan 1 5 9 ''first'' 1 2))) \<noteq>
     Some (convertSpan id id (sampleSpan 1 5 9 ''first'' 1 2)) \<and>
   convertSpan id id (sampleSpan 1 5 9 ''first'' 1 2) \<notin>
     ran (Spans (projr (convertTrace id id
       [sampleSpan 1 5 9 ''first'' 1 2, sampleSpan 1 5 9 ''second'' 3 4])))"
proof -
  let ?A = "sampleSpan 1 5 9 ''first'' 1 2"
  let ?B = "sampleSpan 1 5 9 ''second'' 3 4"
  let ?td = "projr (convertTrace id id [?A, ?B]) :: (int, int) TraceData"
  have "\<exists>td. convertTrace id id [?A, ?B] = Inr td"
    by (simp add: convertTrace_succeeds_iff sampleSpan_fields)
  then have td: "convertTrace id id [?A, ?B] = Inr ?td"
    by (rule convertTrace_projr)
  have same: "SpanData.SpanID (convertSpan id id ?A) = SpanData.SpanID (convertSpan id id ?B)"
    by (simp add: convertSpan_SpanID sampleSpan_fields)
  have diff: "convertSpan id id ?A \<noteq> convertSpan id id ?B"
  proof
    assume "convertSpan id id ?A = convertSpan id id ?B"
    then have "SpanData.DisplayName (convertSpan id id ?A) =
        SpanData.DisplayName (convertSpan id id ?B)" by simp
    then show False by (simp add: convertSpan_DisplayName sampleSpan_fields)
  qed
  have "[?A, ?B] = [?A] @ ?B # []" by simp
  from convertTrace_Spans_last [OF td this]
  have at: "Spans ?td (SpanData.SpanID (convertSpan id id ?B)) = Some (convertSpan id id ?B)"
    by simp
  with same diff have lost: "Spans ?td (SpanData.SpanID (convertSpan id id ?A)) \<noteq>
      Some (convertSpan id id ?A)"
    by simp
  have "convertSpan id id ?A \<notin> ran (Spans ?td)"
  proof
    assume "convertSpan id id ?A \<in> ran (Spans ?td)"
    then obtain k where k: "Spans ?td k = Some (convertSpan id id ?A)"
      by (auto simp: ran_def)
    from convertTrace_Spans_entry [OF td k] have "k = SpanData.SpanID (convertSpan id id ?A)"
      by simp
    with k lost show False by simp
  qed
  with td lost show ?thesis by (intro conjI)
qed

text \<open>
  C6, as amended. Whenever the assembly succeeds: the span id of every converted span of
  the group is a key of \<^verbatim>\<open>Spans\<close>; every entry is a converted span of the group whose
  \<^verbatim>\<open>SpanID\<close> is the key it is stored under; a converted span whose id no later span of the
  group converts to is the entry under its id; so when the span ids of the group are
  pairwise distinct, every converted span is present under its id.
\<close>

theorem convertTrace_Spans_keyed_by_id:
  assumes td: "convertTrace t a spans = Inr td"
  shows "(\<forall>s\<in>set spans. SpanData.SpanID (convertSpan t a s) \<in> dom (Spans td)) \<and>
    (\<forall>k sd. Spans td k = Some sd \<longrightarrow>
       SpanData.SpanID sd = k \<and> sd \<in> convertSpan t a ` set spans) \<and>
    (\<forall>pre s post. spans = pre @ s # post \<and>
       SpanData.SpanID (convertSpan t a s) \<notin>
         (\<lambda>x. SpanData.SpanID (convertSpan t a x)) ` set post \<longrightarrow>
       Spans td (SpanData.SpanID (convertSpan t a s)) = Some (convertSpan t a s)) \<and>
    (distinct (map (\<lambda>s. SpanData.SpanID (convertSpan t a s)) spans) \<longrightarrow>
       (\<forall>s\<in>set spans. Spans td (SpanData.SpanID (convertSpan t a s)) = Some (convertSpan t a s)))"
proof (intro conjI)
  show "\<forall>s\<in>set spans. SpanData.SpanID (convertSpan t a s) \<in> dom (Spans td)"
    by (simp add: convertTrace_Spans_dom [OF td])
  show "\<forall>k sd. Spans td k = Some sd \<longrightarrow>
       SpanData.SpanID sd = k \<and> sd \<in> convertSpan t a ` set spans"
    using convertTrace_Spans_entry [OF td] by blast
  show "\<forall>pre s post. spans = pre @ s # post \<and>
       SpanData.SpanID (convertSpan t a s) \<notin>
         (\<lambda>x. SpanData.SpanID (convertSpan t a x)) ` set post \<longrightarrow>
       Spans td (SpanData.SpanID (convertSpan t a s)) = Some (convertSpan t a s)"
    using convertTrace_Spans_last [OF td] by blast
  show "distinct (map (\<lambda>s. SpanData.SpanID (convertSpan t a s)) spans) \<longrightarrow>
       (\<forall>s\<in>set spans. Spans td (SpanData.SpanID (convertSpan t a s)) = Some (convertSpan t a s))"
  proof (intro impI ballI)
    fix s
    assume d: "distinct (map (\<lambda>s. SpanData.SpanID (convertSpan t a s)) spans)"
      and s: "s \<in> set spans"
    from s obtain pre post where sp: "spans = pre @ s # post"
      by (auto dest: split_list)
    from d have "SpanData.SpanID (convertSpan t a s) \<notin>
         (\<lambda>x. SpanData.SpanID (convertSpan t a x)) ` set post"
      by (simp add: sp)
    from convertTrace_Spans_last [OF td sp this]
    show "Spans td (SpanData.SpanID (convertSpan t a s)) = Some (convertSpan t a s)" .
  qed
qed

theorem convertTrace_Spans_keyed_by_id_witness:
  "convertTrace id id [sampleSpan 1 2 1 ''child'' 12 18, sampleSpan 1 1 0 ''root'' 10 20] =
     Inr (projr (convertTrace id id
       [sampleSpan 1 2 1 ''child'' 12 18, sampleSpan 1 1 0 ''root'' 10 20])) \<and>
   distinct (map (\<lambda>s. SpanData.SpanID (convertSpan id id s))
     [sampleSpan 1 2 1 ''child'' 12 18, sampleSpan 1 1 0 ''root'' 10 20]) \<and>
   Spans (projr (convertTrace id id
       [sampleSpan 1 2 1 ''child'' 12 18, sampleSpan 1 1 0 ''root'' 10 20]))
     ''0000000000000002'' = Some (convertSpan id id (sampleSpan 1 2 1 ''child'' 12 18)) \<and>
   Spans (projr (convertTrace id id
       [sampleSpan 1 2 1 ''child'' 12 18, sampleSpan 1 1 0 ''root'' 10 20]))
     ''0000000000000001'' = Some (convertSpan id id (sampleSpan 1 1 0 ''root'' 10 20)) \<and>
   SpanData.SpanID (convertSpan id id (sampleSpan 1 2 1 ''child'' 12 18)) = ''0000000000000002'' \<and>
   ''0000000000000001'' \<in> dom (Spans (projr (convertTrace id id
       [sampleSpan 1 2 1 ''child'' 12 18, sampleSpan 1 1 0 ''root'' 10 20])))"
proof -
  let ?c = "sampleSpan 1 2 1 ''child'' 12 18"
  let ?r = "sampleSpan 1 1 0 ''root'' 10 20"
  let ?td = "projr (convertTrace id id [?c, ?r]) :: (int, int) TraceData"
  have "\<exists>td. convertTrace id id [?c, ?r] = Inr td"
    by (simp add: convertTrace_succeeds_iff sampleSpan_fields)
  then have td: "convertTrace id id [?c, ?r] = Inr ?td"
    by (rule convertTrace_projr)
  have idc: "SpanData.SpanID (convertSpan id id ?c) = ''0000000000000002''"
    and idr: "SpanData.SpanID (convertSpan id id ?r) = ''0000000000000001''"
    by (simp_all add: convertSpan_SpanID sampleSpan_fields SpanID_String_samples)
  have d: "distinct (map (\<lambda>s. SpanData.SpanID (convertSpan id id s)) [?c, ?r])"
    by (simp add: idc idr)
  note K = convertTrace_Spans_keyed_by_id [OF td]
  from K [THEN conjunct1] have keys: "SpanData.SpanID (convertSpan id id ?r) \<in> dom (Spans ?td)"
    by simp
  from K [THEN conjunct2, THEN conjunct2, THEN conjunct2] d
  have "\<forall>s\<in>set [?c, ?r].
      Spans ?td (SpanData.SpanID (convertSpan id id s)) = Some (convertSpan id id s)"
    by (rule mp)
  then have "Spans ?td (SpanData.SpanID (convertSpan id id ?c)) = Some (convertSpan id id ?c)"
    and "Spans ?td (SpanData.SpanID (convertSpan id id ?r)) = Some (convertSpan id id ?r)"
    by simp_all
  with td d keys idc show ?thesis
    by (simp only: idc idr simp_thms)
qed

text \<open>
  C7. For every raw span, \<^verbatim>\<open>convertSpan\<close> sets \<^verbatim>\<open>ParentSpanID\<close> to the string form of the
  parent's span id when the parent context has a valid span id and leaves it empty
  otherwise; so \<^verbatim>\<open>ParentSpanID\<close> is empty, which is what \<^verbatim>\<open>convertTrace\<close> takes for a
  root, exactly when the parent context has no valid span id.
\<close>

theorem convertSpan_parent_marks_root:
  "SpanData.ParentSpanID (convertSpan t a span) =
     (if HasSpanID (ReadOnlySpan.Parent span)
      then SpanID_String (spanID (ReadOnlySpan.Parent span)) else []) \<and>
   (SpanData.ParentSpanID (convertSpan t a span) = [] \<longleftrightarrow>
      \<not> HasSpanID (ReadOnlySpan.Parent span))"
  using convertSpan_ParentSpanID [of t a span] parentless_iff [of t a span]
  by (intro conjI)

theorem convertSpan_parent_marks_root_witness:
  "SpanData.ParentSpanID (convertSpan id id (sampleSpan 1 2 1 ''child'' 12 18)) =
     ''0000000000000001'' \<and>
   SpanData.ParentSpanID (convertSpan id id (sampleSpan 1 1 0 ''root'' 10 20)) = []"
  using convertSpan_parent_marks_root [of id id "sampleSpan 1 2 1 ''child'' 12 18"]
    convertSpan_parent_marks_root [of id id "sampleSpan 1 1 0 ''root'' 10 20"]
  by (simp add: sampleSpan_fields SpanID_String_samples)

text \<open>
  C8. For every sequence of attributes, the map \<^verbatim>\<open>attributesToMap\<close> returns has exactly
  the keys of the sequence as its domain, and a key maps to the value of its last
  occurrence: the value of \<open>a\<close> when no attribute after \<open>a\<close> has the key of \<open>a\<close>.
\<close>

theorem attributesToMap_last_occurrence_wins:
  "dom (attributesToMap AsInterface attrs) = Key ` set attrs \<and>
   (attrs = pre @ a # post \<and> Key a \<notin> Key ` set post \<longrightarrow>
      attributesToMap AsInterface attrs (Key a) = Some (AsInterface (attribute_KeyValue.Value a)))"
proof (intro conjI impI)
  show "dom (attributesToMap AsInterface attrs) = Key ` set attrs"
    by (simp add: attributesToMap_map_of dom_map_of_conv_image_fst image_image)
next
  let ?e = "\<lambda>a. (Key a, AsInterface (attribute_KeyValue.Value a))"
  assume h: "attrs = pre @ a # post \<and> Key a \<notin> Key ` set post"
  then have "Key a \<notin> fst ` set (map ?e post)"
    by (simp add: image_image)
  from map_of_rev_last [OF this, of "map ?e pre" "AsInterface (attribute_KeyValue.Value a)"] h
  show "attributesToMap AsInterface attrs (Key a) = Some (AsInterface (attribute_KeyValue.Value a))"
    by (simp add: attributesToMap_map_of)
qed

theorem attributesToMap_last_occurrence_wins_witness:
  "dom (attributesToMap id
      [\<lparr> Key = ''k'', attribute_KeyValue.Value = 1 :: int \<rparr>,
       \<lparr> Key = ''j'', attribute_KeyValue.Value = 2 \<rparr>,
       \<lparr> Key = ''k'', attribute_KeyValue.Value = 3 \<rparr>]) = {''k'', ''j''} \<and>
   attributesToMap id
      [\<lparr> Key = ''k'', attribute_KeyValue.Value = 1 :: int \<rparr>,
       \<lparr> Key = ''j'', attribute_KeyValue.Value = 2 \<rparr>,
       \<lparr> Key = ''k'', attribute_KeyValue.Value = 3 \<rparr>] ''k'' = Some 3 \<and>
   attributesToMap id
      [\<lparr> Key = ''k'', attribute_KeyValue.Value = 1 :: int \<rparr>,
       \<lparr> Key = ''j'', attribute_KeyValue.Value = 2 \<rparr>,
       \<lparr> Key = ''k'', attribute_KeyValue.Value = 3 \<rparr>] ''j'' = Some 2"
proof -
  let ?a1 = "\<lparr> Key = ''k'', attribute_KeyValue.Value = 1 :: int \<rparr>"
  let ?a2 = "\<lparr> Key = ''j'', attribute_KeyValue.Value = 2 :: int \<rparr>"
  let ?a3 = "\<lparr> Key = ''k'', attribute_KeyValue.Value = 3 :: int \<rparr>"
  from attributesToMap_last_occurrence_wins [of id "[?a1, ?a2, ?a3]" "[?a1, ?a2]" ?a3 "[]"]
  have k: "dom (attributesToMap id [?a1, ?a2, ?a3]) = {''k'', ''j''}"
    "attributesToMap id [?a1, ?a2, ?a3] ''k'' = Some 3"
    by auto
  from attributesToMap_last_occurrence_wins [of id "[?a1, ?a2, ?a3]" "[?a1]" ?a2 "[?a3]"]
  have j: "attributesToMap id [?a1, ?a2, ?a3] ''j'' = Some 2"
    by simp
  from k j show ?thesis by (intro conjI)
qed

text \<open>
  C9. For every raw span, the converted span's \<^verbatim>\<open>SameProcessAsParentSpan\<close> is the negation
  of the \<^verbatim>\<open>IsRemote\<close> flag of the span's own context.
\<close>

theorem convertSpan_same_process:
  "boolValue.Value (SpanData.SameProcessAsParentSpan (convertSpan t a span)) =
     (\<not> SpanContext_IsRemote (ReadOnlySpan.SpanContext span))"
  by (simp add: convertSpan_def Let_def)

theorem convertSpan_same_process_witness:
  "boolValue.Value (SpanData.SameProcessAsParentSpan
     (convertSpan id id (sampleSpan 1 1 0 ''root'' 10 20))) = True \<and>
   boolValue.Value (SpanData.SameProcessAsParentSpan
     (convertSpan id id ((sampleSpan 1 1 0 ''root'' 10 20)
        \<lparr> ReadOnlySpan.SpanContext :=
            \<lparr> traceID = 1, spanID = 1, traceFlags = 1, remote = True \<rparr> \<rparr>))) = False"
  using convertSpan_same_process [of id id "sampleSpan 1 1 0 ''root'' 10 20"]
    convertSpan_same_process [of id id "(sampleSpan 1 1 0 ''root'' 10 20)
        \<lparr> ReadOnlySpan.SpanContext :=
            \<lparr> traceID = 1, spanID = 1, traceFlags = 1, remote = True \<rparr> \<rparr>"]
  by (simp add: sampleSpan_def SpanContext_IsRemote_def)

text \<open>
  C10. Let two spans \<open>s1\<close> and, later in the group, \<open>s2\<close> convert to the same span id,
  no span after \<open>s2\<close> converting to it. If the assembly succeeds, the entry under that
  id is the converted \<open>s2\<close>, and \<^verbatim>\<open>Spans\<close> has fewer entries than the group has spans.
  The collision raises no error: the assembly fails exactly when a parentless span other
  than the last parentless one has a name, whatever the span ids are.
\<close>

theorem convertTrace_id_collision:
  assumes sp: "spans = xs @ s1 # ys @ s2 # zs"
    and same: "SpanData.SpanID (convertSpan t a s1) = SpanData.SpanID (convertSpan t a s2)"
    and last: "SpanData.SpanID (convertSpan t a s2) \<notin>
         (\<lambda>x. SpanData.SpanID (convertSpan t a x)) ` set zs"
  shows "(convertTrace t a spans = Inr td \<longrightarrow>
       Spans td (SpanData.SpanID (convertSpan t a s1)) = Some (convertSpan t a s2) \<and>
       card (dom (Spans td)) < length spans) \<and>
    ((\<exists>e. convertTrace t a spans = Inl e) \<longleftrightarrow>
       (\<exists>r\<in>set (butlast (filter (\<lambda>s. \<not> HasSpanID (ReadOnlySpan.Parent s)) spans)).
          ReadOnlySpan.Name r \<noteq> []))"
proof (intro conjI impI)
  assume td: "convertTrace t a spans = Inr td"
  from sp have sp': "spans = (xs @ s1 # ys) @ s2 # zs" by simp
  from convertTrace_Spans_last [OF td sp' last] same
  show "Spans td (SpanData.SpanID (convertSpan t a s1)) = Some (convertSpan t a s2)"
    by simp
  let ?ids = "map (\<lambda>s. SpanData.SpanID (convertSpan t a s)) spans"
  from same have "\<not> distinct ?ids" by (simp add: sp)
  then have "card (set ?ids) \<noteq> length ?ids"
    using card_distinct [of ?ids] by blast
  with card_length [of ?ids] have "card (set ?ids) < length spans" by simp
  then show "card (dom (Spans td)) < length spans"
    by (simp add: convertTrace_Spans_dom [OF td])
next
  show "(\<exists>e. convertTrace t a spans = Inl e) \<longleftrightarrow>
       (\<exists>r\<in>set (butlast (filter (\<lambda>s. \<not> HasSpanID (ReadOnlySpan.Parent s)) spans)).
          ReadOnlySpan.Name r \<noteq> [])"
    by (rule convertTrace_fails_iff)
qed

theorem convertTrace_id_collision_witness:
  "convertTrace id id [sampleSpan 1 5 9 ''first'' 1 2, sampleSpan 1 5 9 ''second'' 3 4] =
     Inr (projr (convertTrace id id
       [sampleSpan 1 5 9 ''first'' 1 2, sampleSpan 1 5 9 ''second'' 3 4])) \<and>
   Spans (projr (convertTrace id id
       [sampleSpan 1 5 9 ''first'' 1 2, sampleSpan 1 5 9 ''second'' 3 4]))
     (SpanData.SpanID (convertSpan id id (sampleSpan 1 5 9 ''first'' 1 2))) =
     Some (convertSpan id id (sampleSpan 1 5 9 ''second'' 3 4)) \<and>
   card (dom (Spans (projr (convertTrace id id
       [sampleSpan 1 5 9 ''first'' 1 2, sampleSpan 1 5 9 ''second'' 3 4])))) < 2 \<and>
   \<not> (\<exists>e. convertTrace id id [sampleSpan 1 5 9 ''first'' 1 2, sampleSpan 1 5 9 ''second'' 3 4] =
          (Inl e :: error + (int, int) TraceData))"
proof -
  let ?A = "sampleSpan 1 5 9 ''first'' 1 2"
  let ?B = "sampleSpan 1 5 9 ''second'' 3 4"
  let ?td = "projr (convertTrace id id [?A, ?B]) :: (int, int) TraceData"
  have "\<exists>td. convertTrace id id [?A, ?B] = Inr td"
    by (simp add: convertTrace_succeeds_iff sampleSpan_fields)
  then have td: "convertTrace id id [?A, ?B] = Inr ?td"
    by (rule convertTrace_projr)
  have sp: "[?A, ?B] = [] @ ?A # [] @ ?B # []" by simp
  have same: "SpanData.SpanID (convertSpan id id ?A) = SpanData.SpanID (convertSpan id id ?B)"
    by (simp add: convertSpan_SpanID sampleSpan_fields)
  have last: "SpanData.SpanID (convertSpan id id ?B) \<notin>
      (\<lambda>x. SpanData.SpanID (convertSpan id id x)) ` set []"
    by simp
  note K = convertTrace_id_collision [OF sp same last, of ?td]
  from K [THEN conjunct1] td
  have a: "Spans ?td (SpanData.SpanID (convertSpan id id ?A)) = Some (convertSpan id id ?B) \<and>
      card (dom (Spans ?td)) < length [?A, ?B]"
    by (rule mp)
  have "\<not> (\<exists>r\<in>set (butlast (filter (\<lambda>s. \<not> HasSpanID (ReadOnlySpan.Parent s)) [?A, ?B])).
      ReadOnlySpan.Name r \<noteq> [])"
    by (simp add: sampleSpan_fields)
  with K [THEN conjunct2]
  have b: "\<not> (\<exists>e. convertTrace id id [?A, ?B] = (Inl e :: error + (int, int) TraceData))"
    by blast
  from a have a1: "Spans ?td (SpanData.SpanID (convertSpan id id ?A)) = Some (convertSpan id id ?B)"
    and a2: "card (dom (Spans ?td)) < 2"
    by simp_all
  from td a1 a2 b show ?thesis
    by (intro conjI)
qed

end
